theory Spec2Isabelle
  imports Complex_Main "HOL-Library.Multiset"
begin

section \<open>Common data\<close>

text \<open>
  Numeric arrays of \<^verbatim>\<open>ActiveShapeModel.py\<close> are lists: a vector is a list of
  numbers, a matrix a list of rows. The exceptions the code can raise are values of
  \<open>py_error\<close>; a call that can raise returns \<open>py_error + 'a\<close>.
\<close>

type_synonym vector = "real list"
type_synonym matrix = "real list list"

datatype py_error =
  ValueError | IndexError | ZeroDivisionError | AttributeError | LinAlgError | OverflowError

section \<open>VarianceModel\<close>

text \<open>
  The object \<^verbatim>\<open>PCA(n_components=num_comp)\<close> of the numerical library. Its attributes
  \<^verbatim>\<open>components_\<close> and \<^verbatim>\<open>explained_variance_ratio_\<close> (the fields below, named
  without the trailing underscore) exist only after \<^verbatim>\<open>fit\<close> has returned.
\<close>

record pca =
  n_components :: int
  components :: "matrix option"
  explained_variance_ratio :: "vector option"

text \<open>
  The numerical library is not part of the program; its three routines used by
  \<^verbatim>\<open>VarianceModel\<close> are parameters of the model: \<^verbatim>\<open>np.cov(., rowvar=0)\<close>
  (which returns a value for every two-dimensional array), \<^verbatim>\<open>PCA.fit\<close> (returning the
  components and the explained variance ratios, or raising) and
  \<^verbatim>\<open>np.linalg.eigvalsh\<close> (which can raise).
\<close>

record numlib =
  np_cov :: "matrix \<Rightarrow> matrix"
  pca_fit :: "int \<Rightarrow> matrix \<Rightarrow> py_error + (matrix \<times> vector)"
  eigvalsh :: "matrix \<Rightarrow> py_error + vector"

record variance_model =
  deviation :: matrix
  covariance :: "matrix option"
  pca_fitter :: "pca option"

text \<open>\<^verbatim>\<open>np.mean(m, axis=0)\<close> on a matrix with at least one row.\<close>

definition mean_axis0 :: "matrix \<Rightarrow> vector" where
  "mean_axis0 m =
     map (\<lambda>j. (\<Sum>r\<leftarrow>m. r ! j) / real (length m)) [0..<length (hd m)]"

text \<open>
  \<^verbatim>\<open>VarianceModel.__init__\<close>, from the matrix \<^verbatim>\<open>ref_model.retrieve_as_matrix()\<close>:
  every row has the mean row subtracted (the mean is taken over the shapes held by the
  referent model, which the loop does not change).
\<close>

definition VarianceModel_init :: "matrix \<Rightarrow> variance_model" where
  "VarianceModel_init rows =
     \<lparr>deviation = map (\<lambda>r. map2 (-) r (mean_axis0 rows)) rows,
      covariance = None,
      pca_fitter = None\<rparr>"

text \<open>
  \<^verbatim>\<open>obtain_components\<close>. The result is the exception raised (if any) and the
  object's state afterwards: the fields assigned before a raise stay assigned.
\<close>

definition obtain_components ::
  "numlib \<Rightarrow> int \<Rightarrow> variance_model \<Rightarrow> py_error option \<times> variance_model" where
  "obtain_components lib num_comp vm =
     (let vm1 = (if covariance vm = None
                 then vm\<lparr>covariance := Some (np_cov lib (deviation vm))\<rparr>
                 else vm);
          p = \<lparr>n_components = num_comp, components = None,
               explained_variance_ratio = None\<rparr>;
          vm2 = vm1\<lparr>pca_fitter := Some p\<rparr>
      in case pca_fit lib num_comp (deviation vm2) of
           Inl e \<Rightarrow> (Some e, vm2)
         | Inr (comps, ratios) \<Rightarrow>
             (None, vm2\<lparr>pca_fitter :=
                Some (p\<lparr>components := Some comps,
                         explained_variance_ratio := Some ratios\<rparr>)\<rparr>))"

definition get_components :: "variance_model \<Rightarrow> py_error + matrix" where
  "get_components vm =
     (case pca_fitter vm of
        None \<Rightarrow> Inl ValueError
      | Some p \<Rightarrow> (case components p of None \<Rightarrow> Inl AttributeError | Some c \<Rightarrow> Inr c))"

definition get_variances_explained :: "variance_model \<Rightarrow> py_error + vector" where
  "get_variances_explained vm =
     (case pca_fitter vm of
        None \<Rightarrow> Inl ValueError
      | Some p \<Rightarrow>
          (case explained_variance_ratio p of None \<Rightarrow> Inl AttributeError | Some r \<Rightarrow> Inr r))"

text \<open>\<^verbatim>\<open>sorted(xs, reverse=True)\<close> on numbers.\<close>

definition sorted_reverse :: "vector \<Rightarrow> vector" where
  "sorted_reverse xs = rev (sort xs)"

text \<open>
  \<^verbatim>\<open>get_eigenvalues\<close>: \<^verbatim>\<open>eigvalsh\<close> is called first (on \<^verbatim>\<open>None\<close> it raises),
  then the sorted list is cut to \<^verbatim>\<open>len(self.pca_fitter.components_)\<close>.
\<close>

definition get_eigenvalues :: "numlib \<Rightarrow> variance_model \<Rightarrow> py_error + vector" where
  "get_eigenvalues lib vm =
     (case covariance vm of
        None \<Rightarrow> Inl LinAlgError
      | Some c \<Rightarrow>
          (case eigvalsh lib c of
             Inl e \<Rightarrow> Inl e
           | Inr eigenvals \<Rightarrow>
               (case pca_fitter vm of
                  None \<Rightarrow> Inl AttributeError
                | Some p \<Rightarrow>
                    (case components p of
                       None \<Rightarrow> Inl AttributeError
                     | Some comps \<Rightarrow> Inr (take (length comps) (sorted_reverse eigenvals))))))"

text \<open>
  A caller's history: the calls of \<^verbatim>\<open>obtain_components\<close> made so far on the object,
  oldest first, each with its argument. A call that raised is part of the history (the
  caller caught the exception).
\<close>

fun obtain_all :: "numlib \<Rightarrow> int list \<Rightarrow> variance_model \<Rightarrow> variance_model" where
  "obtain_all lib [] vm = vm"
| "obtain_all lib (n # ns) vm = obtain_all lib ns (snd (obtain_components lib n vm))"


text \<open>
  A stand-in for the numerical library on one data set, used to run the model on a
  concrete input: for the deviation matrix \<open>[[0, -1], [0, 1]]\<close> the covariance is
  \<open>[[0, 0], [0, 2]]\<close>, its eigenvalues are \<open>0\<close> and \<open>2\<close> (in the ascending order of
  \<^verbatim>\<open>eigvalsh\<close>), and the one principal component is \<open>[0, 1]\<close>, which explains all of
  the variance.
\<close>

definition toy_numlib :: numlib where
  "toy_numlib =
     \<lparr>np_cov = (\<lambda>m. [[0, 0], [0, 2]]),
      pca_fit = (\<lambda>n m. if n = 1 then Inr ([[0, 1]], [1]) else Inl ValueError),
      eigvalsh = (\<lambda>c. Inr [0, 2])\<rparr>"

section \<open>Sampler\<close>

text \<open>
  A landmark is a pair \<open>(y, x)\<close> of coordinates, a pixel a pair of integers. Coordinates
  are real numbers here: the model follows the arithmetic of the code exactly, without
  the rounding error of the machine's floating point numbers.
\<close>

type_synonym point = "real \<times> real"
type_synonym pixel = "int \<times> int"

text \<open>
  Indexing an array along its first axis with a Python integer: an index from \<open>-n\<close>
  to \<open>-1\<close> counts from the end, an index outside \<open>-n .. n-1\<close> raises
  \<^verbatim>\<open>IndexError\<close>.
\<close>

definition np_index :: "'a list \<Rightarrow> int \<Rightarrow> py_error + 'a" where
  "np_index xs i =
     (let n = int (length xs)
      in if 0 \<le> i \<and> i < n then Inr (xs ! nat i)
         else if - n \<le> i \<and> i < 0 then Inr (xs ! nat (n + i))
         else Inl IndexError)"

text \<open>\<^verbatim>\<open>(n1 + n2)/2\<close> on two arrays of two numbers.\<close>

definition average2 :: "point \<Rightarrow> point \<Rightarrow> point" where
  "average2 n1 n2 = ((fst n1 + fst n2) / 2, (snd n1 + snd n2) / 2)"

text \<open>
  \<^verbatim>\<open>Sampler._calculate_normals\<close>. The function \<^verbatim>\<open>utils.normal\<close> is a parameter.
  The loop runs over \<^verbatim>\<open>range(len(self.points.points))\<close>, given here as the list of
  the indices still to visit, and appends to \<^verbatim>\<open>self.normals\<close>.
\<close>

fun normals_loop ::
  "(point \<Rightarrow> point \<Rightarrow> point) \<Rightarrow> point list \<Rightarrow> nat list \<Rightarrow> point list \<Rightarrow> py_error + point list"
where
  "normals_loop normal pts [] normals = Inr normals"
| "normals_loop normal pts (ind # rest) normals =
     (case np_index pts (int ind - 1) of
        Inl e \<Rightarrow> Inl e
      | Inr a \<Rightarrow>
          (case np_index pts (int ind) of
             Inl e \<Rightarrow> Inl e
           | Inr b \<Rightarrow>
               (case np_index pts ((int ind + 1) mod 40) of
                  Inl e \<Rightarrow> Inl e
                | Inr c \<Rightarrow>
                    normals_loop normal pts rest
                      (normals @ [average2 (normal a b) (normal b c)]))))"

definition calculate_normals ::
  "(point \<Rightarrow> point \<Rightarrow> point) \<Rightarrow> point list \<Rightarrow> py_error + point list" where
  "calculate_normals normal pts = normals_loop normal pts [0..<length pts] []"

text \<open>
  The normals as the specification words them: at landmark \<open>i\<close> of \<open>N\<close>, the average
  of the normals of the edges \<open>(point[i-1], point[i])\<close> and
  \<open>(point[i], point[(i+1) mod N])\<close>, the index \<open>i-1\<close> wrapping to \<open>N-1\<close> at \<open>i = 0\<close>.
\<close>

definition spec_normals :: "(point \<Rightarrow> point \<Rightarrow> point) \<Rightarrow> point list \<Rightarrow> point list" where
  "spec_normals normal pts =
     map (\<lambda>i. average2
                (normal (pts ! ((i + length pts - 1) mod length pts)) (pts ! i))
                (normal (pts ! i) (pts ! ((i + 1) mod length pts))))
         [0..<length pts]"

text \<open>
  \<^verbatim>\<open>Sampler._sample\<close>. The image is a two-dimensional array of intensities, indexed
  as \<^verbatim>\<open>image[y, x]\<close>. The division \<^verbatim>\<open>float(x)/divnum\<close> is a division of Python
  floats, which raises \<^verbatim>\<open>ZeroDivisionError\<close> on a zero divisor.
\<close>

definition image_at :: "real list list \<Rightarrow> pixel \<Rightarrow> py_error + real" where
  "image_at img item =
     (case np_index img (fst item) of
        Inl e \<Rightarrow> Inl e
      | Inr row \<Rightarrow> np_index row (snd item))"

fun read_all :: "('a \<Rightarrow> py_error + 'b) \<Rightarrow> 'a list \<Rightarrow> py_error + 'b list" where
  "read_all f [] = Inr []"
| "read_all f (x # xs) =
     (case f x of
        Inl e \<Rightarrow> Inl e
      | Inr y \<Rightarrow> (case read_all f xs of Inl e \<Rightarrow> Inl e | Inr ys \<Rightarrow> Inr (y # ys)))"

definition float_div :: "real \<Rightarrow> real \<Rightarrow> py_error + real" where
  "float_div x d = (if d = 0 then Inl ZeroDivisionError else Inr (x / d))"

definition sample_profile :: "real list list \<Rightarrow> pixel list \<Rightarrow> py_error + real list" where
  "sample_profile img pts =
     (case read_all (image_at img) pts of
        Inl e \<Rightarrow> Inl e
      | Inr sample \<Rightarrow>
          (let divnum = (\<Sum>x\<leftarrow>sample. \<bar>x\<bar>)
           in read_all (\<lambda>x. float_div x divnum) sample))"

subsection \<open>Generating the sample points\<close>

text \<open>
  The coordinates of a landmark and of a direction are double precision floats, and so is
  every intermediate result of \<^verbatim>\<open>_generate_points\<close>. A float is a real number, an
  infinity or a NaN.
\<close>

datatype float = Finite real | PosInf | NegInf | NaN

text \<open>
  \<^verbatim>\<open>int(x)\<close> on a float: the fraction is dropped, toward zero, which is exact for
  every float that is a number; an infinity raises \<^verbatim>\<open>OverflowError\<close>, a NaN raises
  \<^verbatim>\<open>ValueError\<close>.
\<close>

definition py_int :: "real \<Rightarrow> int" where
  "py_int x = (if 0 \<le> x then \<lfloor>x\<rfloor> else \<lceil>x\<rceil>)"

fun to_int :: "float \<Rightarrow> py_error + int" where
  "to_int (Finite x) = Inr (py_int x)"
| "to_int PosInf = Inl OverflowError"
| "to_int NegInf = Inl OverflowError"
| "to_int NaN = Inl ValueError"

text \<open>
  The arithmetic of the machine is a parameter: the conversion of a Python integer to a float
  (which raises \<^verbatim>\<open>OverflowError\<close> when the integer is too large), and the product, the
  sum and the difference of two floats, each rounded as the machine rounds it.
\<close>

record float_ops =
  float_of_int :: "nat \<Rightarrow> py_error + float"
  fmul :: "float \<Rightarrow> float \<Rightarrow> float"
  fadd :: "float \<Rightarrow> float \<Rightarrow> float"
  fsub :: "float \<Rightarrow> float \<Rightarrow> float"

text \<open>The literal \<^verbatim>\<open>0.02\<close>: the double nearest to \<open>1/50\<close>.\<close>

definition step_width :: float where
  "step_width = Finite (5764607523034235 / 2 ^ 58)"

text \<open>
  One turn of either \<^verbatim>\<open>while\<close> loop of \<^verbatim>\<open>_generate_points\<close>: the new point is
  appended unless it is already in the list or is the starting point.
\<close>

definition append_new :: "pixel list \<Rightarrow> pixel list \<Rightarrow> pixel \<Rightarrow> pixel list" where
  "append_new starting_point points new_point =
     (if new_point \<notin> set points \<and> new_point \<notin> set starting_point
      then points @ [new_point] else points)"

text \<open>
  The loop \<^verbatim>\<open>while len(points) < self.k\<close>, with the new point of step \<open>ind\<close> given
  by a function that can raise. The loop has no bound on \<open>ind\<close>: where it does not end,
  the result is \<open>None\<close>.
\<close>

partial_function (option) collect_points ::
  "(nat \<Rightarrow> py_error + pixel) \<Rightarrow> int \<Rightarrow> pixel list \<Rightarrow> nat \<Rightarrow> pixel list
     \<Rightarrow> (py_error + pixel list) option"
where
  "collect_points new_point k starting_point ind points =
     (if int (length points) < k
      then (case new_point ind of
              Inl e \<Rightarrow> Some (Inl e)
            | Inr p \<Rightarrow>
                collect_points new_point k starting_point (ind + 1)
                  (append_new starting_point points p))
      else Some (Inr points))"

text \<open>
  The new points of the two loops at step \<open>ind\<close>: the first loop (filling
  \<^verbatim>\<open>pos_points\<close>) takes \<^verbatim>\<open>start_point[i] - ind * 0.02 * direction[i]\<close>, the second
  (filling \<^verbatim>\<open>neg_points\<close>) \<^verbatim>\<open>start_point[i] + ind * 0.02 * direction[i]\<close>; the
  product is taken from the left, and each coordinate goes through \<^verbatim>\<open>int()\<close>.
\<close>

definition new_point ::
  "float_ops \<Rightarrow> (float \<Rightarrow> float \<Rightarrow> float) \<Rightarrow> float \<times> float \<Rightarrow> float \<times> float \<Rightarrow> nat
     \<Rightarrow> py_error + pixel" where
  "new_point ops move start_point direction ind =
     (case float_of_int ops ind of
        Inl e \<Rightarrow> Inl e
      | Inr i \<Rightarrow>
          (case to_int (move (fst start_point)
                          (fmul ops (fmul ops i step_width) (fst direction))) of
             Inl e \<Rightarrow> Inl e
           | Inr y \<Rightarrow>
               (case to_int (move (snd start_point)
                               (fmul ops (fmul ops i step_width) (snd direction))) of
                  Inl e \<Rightarrow> Inl e
                | Inr x \<Rightarrow> Inr (y, x))))"

definition pos_new_point ::
  "float_ops \<Rightarrow> float \<times> float \<Rightarrow> float \<times> float \<Rightarrow> nat \<Rightarrow> py_error + pixel" where
  "pos_new_point ops = new_point ops (fsub ops)"

definition neg_new_point ::
  "float_ops \<Rightarrow> float \<times> float \<Rightarrow> float \<times> float \<Rightarrow> nat \<Rightarrow> py_error + pixel" where
  "neg_new_point ops = new_point ops (fadd ops)"

text \<open>
  \<^verbatim>\<open>Sampler._generate_points\<close> with \<^verbatim>\<open>self.k\<close> as its second argument. The result
  is \<open>None\<close> where one of the loops does not end.
\<close>

definition generate_points ::
  "float_ops \<Rightarrow> int \<Rightarrow> float \<times> float \<Rightarrow> float \<times> float \<Rightarrow> (py_error + pixel list) option"
where
  "generate_points ops k start_point direction =
     (case to_int (fst start_point) of
        Inl e \<Rightarrow> Some (Inl e)
      | Inr y \<Rightarrow>
          (case to_int (snd start_point) of
             Inl e \<Rightarrow> Some (Inl e)
           | Inr x \<Rightarrow>
               (let starting_point = [(y, x)]
                in case collect_points (pos_new_point ops start_point direction) k
                          starting_point 1 [] of
                     None \<Rightarrow> None
                   | Some (Inl e) \<Rightarrow> Some (Inl e)
                   | Some (Inr pos_points) \<Rightarrow>
                       (case collect_points (neg_new_point ops start_point direction) k
                               starting_point 1 [] of
                          None \<Rightarrow> None
                        | Some (Inl e) \<Rightarrow> Some (Inl e)
                        | Some (Inr neg_points) \<Rightarrow>
                            Some (Inr (rev neg_points @ starting_point @ pos_points))))))"

text \<open>
  An arithmetic to run the model with: every operation returns the exact result. The
  doubles do the same wherever the exact result is a double.
\<close>

definition exact :: "(real \<Rightarrow> real \<Rightarrow> real) \<Rightarrow> float \<Rightarrow> float \<Rightarrow> float" where
  "exact f a b = (case (a, b) of (Finite x, Finite y) \<Rightarrow> Finite (f x y) | _ \<Rightarrow> NaN)"

definition exact_ops :: float_ops where
  "exact_ops =
     \<lparr>float_of_int = (\<lambda>n. Inr (Finite (real n))),
      fmul = exact (*), fadd = exact (+), fsub = exact (-)\<rparr>"

section \<open>ReferentModel\<close>

text \<open>
  \<^verbatim>\<open>ReferentModel.align\<close> works on \<^verbatim>\<open>DataCollector\<close> objects, which it changes in
  place through their methods, and calls \<^verbatim>\<open>utils\<close> and \<^verbatim>\<open>numpy\<close>. None of these is
  part of \<^verbatim>\<open>ActiveShapeModel.py\<close>, so they are parameters of the model: \<open>'h\<close> is the
  state of all objects (the heap), \<open>'o\<close> a reference to a \<^verbatim>\<open>DataCollector\<close>, \<open>'v\<close> an
  array, \<open>'r\<close> a float and \<open>'e\<close> an exception. A call takes the heap and either raises
  or returns a value and the heap it leaves. Nothing is assumed about what a call does to
  the heap, so objects may share their arrays.
\<close>

type_synonym ('h, 'e, 'a) call = "'h \<Rightarrow> 'e + 'a \<times> 'h"

record ('h, 'o, 'v, 'r, 'e) collaborators =
  DataCollector :: "('h, 'e, 'o) call"
  read_vector :: "'o \<Rightarrow> 'v \<Rightarrow> ('h, 'e, unit) call"
  read_points :: "'o \<Rightarrow> 'v \<Rightarrow> ('h, 'e, unit) call"
  as_vector :: "'o \<Rightarrow> ('h, 'e, 'v) call"
  get_points :: "'o \<Rightarrow> ('h, 'e, 'v) call"
  translate_to_origin :: "'o \<Rightarrow> ('h, 'e, unit) call"
  scale_to_unit :: "'o \<Rightarrow> ('h, 'e, unit) call"
  rotate_by :: "'o \<Rightarrow> 'r \<Rightarrow> ('h, 'e, unit) call"
  check_distance :: "'o \<Rightarrow> ('h, 'e, 'r) call"
  differs_from_0_1 :: "'r \<Rightarrow> bool"
  get_scale_factor :: "'o \<Rightarrow> ('h, 'e, 'r) call"
  set_scale_factor :: "'o \<Rightarrow> 'r \<Rightarrow> ('h, 'e, unit) call"
  copy_copy :: "'o \<Rightarrow> ('h, 'e, 'o) call"
  is_converged :: "'o \<Rightarrow> 'o \<Rightarrow> ('h, 'e, bool) call"
  rotation_alignment :: "'o \<Rightarrow> 'o \<Rightarrow> ('h, 'e, 'r) call"
  np_mean :: "'v list \<Rightarrow> ('h, 'e, 'v) call"
  np_zeros_like :: "'v \<Rightarrow> ('h, 'e, 'v) call"
  float_zero :: "'r"
  float_add :: "'r \<Rightarrow> 'r \<Rightarrow> 'r"
  float_div_len :: "'r \<Rightarrow> nat \<Rightarrow> 'r"

text \<open>
  \<open>DataCollector\<close> is the constructor call \<^verbatim>\<open>DataCollector(None)\<close>, \<open>get_points\<close>
  and \<open>get_scale_factor\<close> read the attributes \<^verbatim>\<open>points\<close> and \<^verbatim>\<open>scale_factor\<close>,
  \<open>rotate_by\<close> is the method \<^verbatim>\<open>rotate\<close>, \<open>is_converged\<close> tells whether
  \<^verbatim>\<open>utils.is_converged\<close> returned \<^verbatim>\<open>True\<close>, \<open>differs_from_0_1\<close> is the test
  \<^verbatim>\<open>!= 0.1\<close>, \<open>np_mean\<close> is \<^verbatim>\<open>np.mean(np.array(rows), axis=0)\<close>, and
  \<open>float_div_len x n\<close> is \<^verbatim>\<open>x / float(n)\<close>. A matrix is the list of its rows.

  Calls in sequence: the second call runs on the heap the first one leaves, unless the first
  raises.
\<close>

definition returns :: "'a \<Rightarrow> ('h, 'e, 'a) call" where
  "returns a h = Inr (a, h)"

definition and_then ::
  "('h, 'e, 'a) call \<Rightarrow> ('a \<Rightarrow> ('h, 'e, 'b) call) \<Rightarrow> ('h, 'e, 'b) call" where
  "and_then m f h = (case m h of Inl e \<Rightarrow> Inl e | Inr (a, h') \<Rightarrow> f a h')"

text \<open>A \<^verbatim>\<open>for\<close> loop over a list, collecting what the body returns.\<close>

fun for_each :: "('a \<Rightarrow> ('h, 'e, 'b) call) \<Rightarrow> 'a list \<Rightarrow> ('h, 'e, 'b list) call" where
  "for_each f [] h = Inr ([], h)"
| "for_each f (x # xs) h =
     (case f x h of
        Inl e \<Rightarrow> Inl e
      | Inr (y, h1) \<Rightarrow>
          (case for_each f xs h1 of
             Inl e \<Rightarrow> Inl e
           | Inr (ys, h2) \<Rightarrow> Inr (y # ys, h2)))"

text \<open>
  \<^verbatim>\<open>_convert_matrix_to_collection\<close>: one new \<^verbatim>\<open>DataCollector\<close> for each row of the
  matrix, in the order of the rows.
\<close>

definition convert_matrix_to_collection ::
  "('h, 'o, 'v, 'r, 'e) collaborators \<Rightarrow> 'v list \<Rightarrow> ('h, 'e, 'o list) call" where
  "convert_matrix_to_collection c m =
     for_each (\<lambda>row. and_then (DataCollector c)
                       (\<lambda>tmp. and_then (read_vector c tmp row) (\<lambda>_. returns tmp))) m"

text \<open>\<^verbatim>\<open>_convert_collection_to_matrix\<close>: the vector of each item, in the order of the items.\<close>

definition convert_collection_to_matrix ::
  "('h, 'o, 'v, 'r, 'e) collaborators \<Rightarrow> 'o list \<Rightarrow> ('h, 'e, 'v list) call" where
  "convert_collection_to_matrix c collection = for_each (as_vector c) collection"

text \<open>\<^verbatim>\<open>mean_model\<close>, when \<^verbatim>\<open>self.points\<close> is the list of the items.\<close>

definition mean_model ::
  "('h, 'o, 'v, 'r, 'e) collaborators \<Rightarrow> 'o list \<Rightarrow> ('h, 'e, 'v) call" where
  "mean_model c collection = and_then (convert_collection_to_matrix c collection) (np_mean c)"

text \<open>The body of the inner \<^verbatim>\<open>for\<close> loop of \<^verbatim>\<open>align\<close> (lines 140 to 144).\<close>

definition realign_item ::
  "('h, 'o, 'v, 'r, 'e) collaborators \<Rightarrow> 'o \<Rightarrow> 'o \<Rightarrow> ('h, 'e, unit) call" where
  "realign_item c mean_shape item =
     and_then (rotation_alignment c mean_shape item) (\<lambda>angle.
     and_then (rotate_by c item angle) (\<lambda>_.
     and_then (check_distance c item) (\<lambda>d.
       if differs_from_0_1 c d then translate_to_origin c item else returns ())))"

text \<open>The body of the \<^verbatim>\<open>while\<close> loop of \<^verbatim>\<open>align\<close> (lines 127 to 144).\<close>

definition loop_body ::
  "('h, 'o, 'v, 'r, 'e) collaborators \<Rightarrow> 'o \<Rightarrow> 'o \<Rightarrow> 'o list \<Rightarrow> ('h, 'e, unit) call" where
  "loop_body c old_mean_shape mean_shape collection =
     and_then (get_points c mean_shape) (\<lambda>p.
     and_then (read_points c old_mean_shape p) (\<lambda>_.
     and_then (mean_model c collection) (\<lambda>v.
     and_then (read_vector c mean_shape v) (\<lambda>_.
     and_then (translate_to_origin c mean_shape) (\<lambda>_.
     and_then (scale_to_unit c mean_shape) (\<lambda>_.
     and_then (for_each (realign_item c mean_shape) collection) (\<lambda>_. returns ())))))))"

text \<open>
  The \<^verbatim>\<open>while\<close> loop of \<^verbatim>\<open>align\<close> (line 126). The loop has no bound on the number
  of its turns: where it does not end, the result is \<open>None\<close>.
\<close>

partial_function (option) procrustes_loop ::
  "('h, 'o, 'v, 'r, 'e) collaborators \<Rightarrow> 'o \<Rightarrow> 'o \<Rightarrow> 'o list \<Rightarrow> 'h \<Rightarrow> ('e + unit \<times> 'h) option"
where
  "procrustes_loop c old_mean_shape mean_shape collection h =
     (case is_converged c old_mean_shape mean_shape h of
        Inl e \<Rightarrow> Some (Inl e)
      | Inr (converged, h1) \<Rightarrow>
          if converged then Some (Inr ((), h1))
          else (case loop_body c old_mean_shape mean_shape collection h1 of
                  Inl e \<Rightarrow> Some (Inl e)
                | Inr (u, h2) \<Rightarrow> procrustes_loop c old_mean_shape mean_shape collection h2))"

text \<open>
  The parts of \<^verbatim>\<open>align\<close> around the loop: lines 111 to 119 (the collection is built,
  each item is translated, then each item is scaled), lines 122 to 124 (the mean shape is a
  copy of the first item, the old mean shape a new object with zeros for points), and lines
  149 to 152 (the scale factor of the mean shape).
\<close>

definition normalise_collection ::
  "('h, 'o, 'v, 'r, 'e) collaborators \<Rightarrow> 'v list \<Rightarrow> ('h, 'e, 'o list) call" where
  "normalise_collection c m =
     and_then (convert_matrix_to_collection c m) (\<lambda>collection.
     and_then (for_each (translate_to_origin c) collection) (\<lambda>_.
     and_then (for_each (scale_to_unit c) collection) (\<lambda>_. returns collection)))"

definition first_mean_shapes ::
  "('h, 'o, 'v, 'r, 'e) collaborators \<Rightarrow> 'o \<Rightarrow> ('h, 'e, 'o \<times> 'o) call" where
  "first_mean_shapes c first =
     and_then (copy_copy c first) (\<lambda>mean_shape.
     and_then (DataCollector c) (\<lambda>old_mean_shape.
     and_then (get_points c mean_shape) (\<lambda>p.
     and_then (np_zeros_like c p) (\<lambda>z.
     and_then (read_points c old_mean_shape z) (\<lambda>_.
       returns (mean_shape, old_mean_shape))))))"

definition mean_scale_factor ::
  "('h, 'o, 'v, 'r, 'e) collaborators \<Rightarrow> 'o \<Rightarrow> 'o list \<Rightarrow> ('h, 'e, unit) call" where
  "mean_scale_factor c mean_shape collection =
     and_then (for_each (get_scale_factor c) collection) (\<lambda>factors.
       set_scale_factor c mean_shape
         (float_div_len c (foldl (float_add c) (float_zero c) factors) (length collection)))"

text \<open>
  The state of a \<^verbatim>\<open>ReferentModel\<close> after \<^verbatim>\<open>align\<close>: \<^verbatim>\<open>self.points\<close>, which is then the
  list of the items, and \<^verbatim>\<open>self.mean_shape\<close>. The fields carry the prefix \<open>model\<close>.
\<close>

record 'o referent_model =
  model_points :: "'o list"
  model_mean_shape :: 'o

text \<open>
  \<^verbatim>\<open>ReferentModel.align\<close> on a model built from the matrix \<open>m\<close>. The one exception
  that \<^verbatim>\<open>align\<close> raises itself is the \<^verbatim>\<open>IndexError\<close> of \<^verbatim>\<open>self.points[0]\<close> on an
  empty list (on the left of the error type); an exception of a call passes through (on
  the right).
\<close>

definition align ::
  "('h, 'o, 'v, 'r, 'e) collaborators \<Rightarrow> 'v list \<Rightarrow> 'h
     \<Rightarrow> ((py_error + 'e) + 'o referent_model \<times> 'h) option" where
  "align c m h =
     (case normalise_collection c m h of
        Inl e \<Rightarrow> Some (Inl (Inr e))
      | Inr (collection, h1) \<Rightarrow>
          (case collection of
             [] \<Rightarrow> Some (Inl (Inl IndexError))
           | first # rest \<Rightarrow>
               (case first_mean_shapes c first h1 of
                  Inl e \<Rightarrow> Some (Inl (Inr e))
                | Inr ((mean_shape, old_mean_shape), h2) \<Rightarrow>
                    (case procrustes_loop c old_mean_shape mean_shape collection h2 of
                       None \<Rightarrow> None
                     | Some (Inl e) \<Rightarrow> Some (Inl (Inr e))
                     | Some (Inr (u, h3)) \<Rightarrow>
                         (case mean_scale_factor c mean_shape collection h3 of
                            Inl e \<Rightarrow> Some (Inl (Inr e))
                          | Inr (u, h4) \<Rightarrow>
                              Some (Inr (\<lparr>model_points = collection,
                                          model_mean_shape = mean_shape\<rparr>, h4)))))))"



text \<open>
  Collaborators to run the model with. The heap is the list of the vectors of the objects,
  a reference is an index into it. The methods that move a shape leave it as it is, the mean
  of a matrix is its first row, and the convergence test compares the two vectors.
\<close>

definition toy_collaborators :: "(int list list, nat, int list, int, unit) collaborators" where
  "toy_collaborators =
     \<lparr>DataCollector = (\<lambda>h. Inr (length h, h @ [[]])),
      read_vector = (\<lambda>item v h. Inr ((), h[item := v])),
      read_points = (\<lambda>item v h. Inr ((), h[item := v])),
      as_vector = (\<lambda>item h. Inr (h ! item, h)),
      get_points = (\<lambda>item h. Inr (h ! item, h)),
      translate_to_origin = (\<lambda>item h. Inr ((), h)),
      scale_to_unit = (\<lambda>item h. Inr ((), h)),
      rotate_by = (\<lambda>item angle h. Inr ((), h)),
      check_distance = (\<lambda>item h. Inr (0, h)),
      differs_from_0_1 = (\<lambda>d. True),
      get_scale_factor = (\<lambda>item h. Inr (1, h)),
      set_scale_factor = (\<lambda>item f h. Inr ((), h)),
      copy_copy = (\<lambda>item h. Inr (length h, h @ [h ! item])),
      is_converged = (\<lambda>old new h. Inr (h ! old = h ! new, h)),
      rotation_alignment = (\<lambda>mean item h. Inr (0, h)),
      np_mean = (\<lambda>rows h. case rows of [] \<Rightarrow> Inl () | row # _ \<Rightarrow> Inr (row, h)),
      np_zeros_like = (\<lambda>v h. Inr (map (\<lambda>_. 0) v, h)),
      float_zero = 0,
      float_add = (+),
      float_div_len = (\<lambda>x n. x div int n)\<rparr>"


section \<open>Properties of VarianceModel\<close>

lemma obtain_components_deviation:
  "deviation (snd (obtain_components lib n vm)) = deviation vm"
  by (simp add: obtain_components_def Let_def split: sum.splits prod.splits)

lemma obtain_components_covariance:
  "covariance (snd (obtain_components lib n vm)) =
     Some (case covariance vm of None \<Rightarrow> np_cov lib (deviation vm) | Some c \<Rightarrow> c)"
  by (auto simp add: obtain_components_def Let_def split: sum.splits prod.splits option.splits)

lemma obtain_components_fitter:
  "pca_fitter (snd (obtain_components lib n vm)) \<noteq> None"
  by (simp add: obtain_components_def Let_def split: sum.splits prod.splits)

lemma obtain_all_deviation: "deviation (obtain_all lib ns vm) = deviation vm"
  by (induction ns arbitrary: vm) (simp_all add: obtain_components_deviation)

lemma obtain_all_fitter:
  "pca_fitter (obtain_all lib ns vm) = None \<longleftrightarrow> ns = [] \<and> pca_fitter vm = None"
proof (induction ns arbitrary: vm)
  case Nil
  show ?case by simp
next
  case (Cons n ns)
  show ?case using Cons.IH [of "snd (obtain_components lib n vm)"]
    by (simp add: obtain_components_fitter)
qed

lemma obtain_all_covariance:
  "covariance (obtain_all lib ns vm) =
     (if ns = [] then covariance vm
      else Some (case covariance vm of None \<Rightarrow> np_cov lib (deviation vm) | Some c \<Rightarrow> c))"
proof (induction ns arbitrary: vm)
  case Nil
  show ?case by simp
next
  case (Cons n ns)
  show ?case using Cons.IH [of "snd (obtain_components lib n vm)"]
    by (simp add: obtain_components_covariance obtain_components_deviation)
qed

lemma obtain_components_success:
  assumes "obtain_components lib n vm = (None, vm')"
  shows "\<exists>comps ratios. pca_fit lib n (deviation vm) = Inr (comps, ratios) \<and>
           pca_fitter vm' = Some \<lparr>n_components = n, components = Some comps,
                                     explained_variance_ratio = Some ratios\<rparr>"
  using assms
  by (auto simp add: obtain_components_def Let_def split: sum.splits prod.splits if_splits)

lemma sorted_reverse_sorted: "sorted (rev (sorted_reverse xs))"
  by (simp add: sorted_reverse_def)

lemma sorted_reverse_mset: "mset (sorted_reverse xs) = mset xs"
  by (simp add: sorted_reverse_def)

lemma sorted_rev_take_drop:
  assumes "sorted (rev xs)" "x \<in> set (drop k xs)" "y \<in> set (take k xs)"
  shows "x \<le> (y::real)"
proof -
  have "sorted (rev (take k xs @ drop k xs))" using assms(1) by simp
  then show ?thesis using assms(2,3)
    unfolding rev_append sorted_append by auto
qed

lemma get_components_ValueError:
  "get_components vm = Inl ValueError \<longleftrightarrow> pca_fitter vm = None"
  by (simp add: get_components_def split: option.splits)

lemma get_variances_explained_ValueError:
  "get_variances_explained vm = Inl ValueError \<longleftrightarrow> pca_fitter vm = None"
  by (simp add: get_variances_explained_def split: option.splits)

lemma VarianceModel_init_fields:
  "pca_fitter (VarianceModel_init rows) = None"
  "covariance (VarianceModel_init rows) = None"
  by (simp_all add: VarianceModel_init_def)

text \<open>
  Claim C7. \<^verbatim>\<open>get_components\<close> and \<^verbatim>\<open>get_variances_explained\<close> raise the
  "not calculated" error (a \<^verbatim>\<open>ValueError\<close>) exactly when no call of
  \<^verbatim>\<open>obtain_components\<close> has been made on the object since its construction; and after
  a call of \<^verbatim>\<open>obtain_components\<close> that returned, they return the components and the
  explained variance ratios of that one fit of the deviation matrix, so that entry \<open>i\<close>
  of the one belongs to entry \<open>i\<close> of the other.
\<close>

theorem getters_not_computed_iff:
  "(get_components (obtain_all lib ns (VarianceModel_init rows)) = Inl ValueError
      \<longleftrightarrow> ns = []) \<and>
   (get_variances_explained (obtain_all lib ns (VarianceModel_init rows)) = Inl ValueError
      \<longleftrightarrow> ns = []) \<and>
   (obtain_components lib n (obtain_all lib ns (VarianceModel_init rows)) = (None, vm) \<longrightarrow>
      (\<exists>comps ratios.
         pca_fit lib n (deviation (VarianceModel_init rows)) = Inr (comps, ratios) \<and>
         get_components vm = Inr comps \<and>
         get_variances_explained vm = Inr ratios))"
proof (intro conjI impI)
  show "get_components (obtain_all lib ns (VarianceModel_init rows)) = Inl ValueError
          \<longleftrightarrow> ns = []"
    by (simp add: get_components_ValueError obtain_all_fitter VarianceModel_init_fields)
  show "get_variances_explained (obtain_all lib ns (VarianceModel_init rows)) = Inl ValueError
          \<longleftrightarrow> ns = []"
    by (simp add: get_variances_explained_ValueError obtain_all_fitter
        VarianceModel_init_fields)
next
  assume ok: "obtain_components lib n (obtain_all lib ns (VarianceModel_init rows)) = (None, vm)"
  from obtain_components_success [OF ok] obtain comps ratios where
    fit: "pca_fit lib n (deviation (obtain_all lib ns (VarianceModel_init rows)))
            = Inr (comps, ratios)"
    and p: "pca_fitter vm = Some \<lparr>n_components = n, components = Some comps,
                                    explained_variance_ratio = Some ratios\<rparr>"
    by blast
  from fit have "pca_fit lib n (deviation (VarianceModel_init rows)) = Inr (comps, ratios)"
    by (simp add: obtain_all_deviation)
  moreover from p have "get_components vm = Inr comps"
    by (simp add: get_components_def)
  moreover from p have "get_variances_explained vm = Inr ratios"
    by (simp add: get_variances_explained_def)
  ultimately show "\<exists>comps ratios.
         pca_fit lib n (deviation (VarianceModel_init rows)) = Inr (comps, ratios) \<and>
         get_components vm = Inr comps \<and>
         get_variances_explained vm = Inr ratios"
    by blast
qed


theorem getters_not_computed_iff_witness:
  "get_components (obtain_all toy_numlib [] (VarianceModel_init [[0, 3], [0, 5]]))
     = Inl ValueError \<and>
   get_components (snd (obtain_components toy_numlib 1 (VarianceModel_init [[0, 3], [0, 5]])))
     = Inr [[0, 1]] \<and>
   get_variances_explained
     (snd (obtain_components toy_numlib 1 (VarianceModel_init [[0, 3], [0, 5]])))
     = Inr [1]"
proof -
  let ?vm = "snd (obtain_components toy_numlib 1 (VarianceModel_init [[0, 3], [0, 5]]))"
  have ok: "obtain_components toy_numlib 1
              (obtain_all toy_numlib [] (VarianceModel_init [[0, 3], [0, 5]])) = (None, ?vm)"
    by (simp add: obtain_components_def toy_numlib_def Let_def)
  have fit: "pca_fit toy_numlib 1 (deviation (VarianceModel_init [[0, 3], [0, 5]]))
               = Inr ([[0, 1]], [1])"
    by (simp add: toy_numlib_def)
  show ?thesis
    using getters_not_computed_iff [of toy_numlib "[]" "[[0, 3], [0, 5]]" 1 ?vm] ok fit
    by auto
qed

lemma mset_take_drop: "mset xs - mset (take k xs) = mset (drop k xs)"
proof -
  have "mset xs = mset (take k xs) + mset (drop k xs)"
    by (metis append_take_drop_id mset_append)
  then show ?thesis by simp
qed

lemma take_sorted_reverse:
  fixes eigs :: vector and k :: nat
  defines "evs \<equiv> take k (sorted_reverse eigs)"
  shows "sorted (rev evs)"
    and "length evs = min k (length eigs)"
    and "mset evs \<subseteq># mset eigs"
    and "\<forall>x \<in># mset eigs - mset evs. \<forall>y \<in> set evs. x \<le> y"
proof -
  let ?s = "sorted_reverse eigs"
  have s: "sorted (rev ?s)" by (rule sorted_reverse_sorted)
  have "sorted (rev (take k ?s @ drop k ?s))" using s by simp
  then show "sorted (rev evs)"
    unfolding rev_append sorted_append evs_def by blast
  show "length evs = min k (length eigs)"
    by (simp add: evs_def sorted_reverse_def min.commute)
  have m: "mset eigs = mset (take k ?s) + mset (drop k ?s)"
    by (metis append_take_drop_id mset_append sorted_reverse_mset)
  then show "mset evs \<subseteq># mset eigs" by (simp add: evs_def)
  have "mset eigs - mset evs = mset (drop k ?s)"
    using m by (simp add: evs_def)
  then show "\<forall>x \<in># mset eigs - mset evs. \<forall>y \<in> set evs. x \<le> y"
    using sorted_rev_take_drop [OF s] by (simp add: evs_def)
qed

text \<open>
  Claim C8. After a call \<^verbatim>\<open>obtain_components(num_comp)\<close> that returned,
  \<^verbatim>\<open>get_eigenvalues\<close> returns eigenvalues of the covariance matrix of the deviation
  data (as \<^verbatim>\<open>eigvalsh\<close> reports them), in non-increasing order, the largest ones, and
  as many as there are retained components (the fit retains no more components than the
  data has coordinates, which is the number of eigenvalues).
\<close>

theorem get_eigenvalues_top:
  assumes ok: "obtain_components lib n (obtain_all lib ns (VarianceModel_init rows)) = (None, vm)"
    and eig: "eigvalsh lib (np_cov lib (deviation (VarianceModel_init rows))) = Inr eigs"
    and comps: "get_components vm = Inr comps"
    and le: "length comps \<le> length eigs"
  shows "\<exists>evs. get_eigenvalues lib vm = Inr evs \<and>
           evs = take (length comps) (sorted_reverse eigs) \<and>
           sorted (rev evs) \<and>
           length evs = length comps \<and>
           mset evs \<subseteq># mset eigs \<and>
           (\<forall>x \<in># mset eigs - mset evs. \<forall>y \<in> set evs. x \<le> y)"
proof -
  let ?st = "obtain_all lib ns (VarianceModel_init rows)"
  have "covariance vm = covariance (snd (obtain_components lib n ?st))"
    using ok by simp
  also have "\<dots> = Some (np_cov lib (deviation (VarianceModel_init rows)))"
    by (simp add: obtain_components_covariance obtain_all_covariance obtain_all_deviation
        VarianceModel_init_fields)
  finally have c: "covariance vm = Some (np_cov lib (deviation (VarianceModel_init rows)))" .
  from obtain_components_success [OF ok] obtain cs rs where
    p: "pca_fitter vm = Some \<lparr>n_components = n, components = Some cs,
                               explained_variance_ratio = Some rs\<rparr>"
    by blast
  from p comps have cs: "cs = comps" by (simp add: get_components_def)
  have g: "get_eigenvalues lib vm = Inr (take (length comps) (sorted_reverse eigs))"
    by (simp add: get_eigenvalues_def c eig p cs)
  show ?thesis
    using g take_sorted_reverse [where k = "length comps" and eigs = eigs] le by simp
qed

theorem get_eigenvalues_top_witness:
  "get_eigenvalues toy_numlib
     (snd (obtain_components toy_numlib 1 (VarianceModel_init [[0, 3], [0, 5]])))
     = Inr [2]"
proof -
  let ?vm = "snd (obtain_components toy_numlib 1 (VarianceModel_init [[0, 3], [0, 5]]))"
  have ok: "obtain_components toy_numlib 1
              (obtain_all toy_numlib [] (VarianceModel_init [[0, 3], [0, 5]])) = (None, ?vm)"
    by (simp add: obtain_components_def toy_numlib_def Let_def)
  have eig: "eigvalsh toy_numlib
               (np_cov toy_numlib (deviation (VarianceModel_init [[0, 3], [0, 5]])))
               = Inr [0, 2]"
    by (simp add: toy_numlib_def)
  have comps: "get_components ?vm = Inr [[0, 1]]"
    by (simp add: obtain_components_def toy_numlib_def Let_def get_components_def)
  have le: "length [[0, 1 :: real]] \<le> length [0, 2 :: real]" by simp
  have s: "sorted_reverse [0, 2] = [2, 0]"
    by (simp add: sorted_reverse_def)
  show ?thesis
    using get_eigenvalues_top [OF ok eig comps le] by (simp add: s)
qed

section \<open>Properties of Sampler\<close>

subsection \<open>Normals\<close>

lemma np_index_in_range: "i < length xs \<Longrightarrow> np_index xs (int i) = Inr (xs ! i)"
  by (simp add: np_index_def)

lemma np_index_too_large: "length xs \<le> i \<Longrightarrow> np_index xs (int i) = Inl IndexError"
  by (simp add: np_index_def)

lemma np_index_before:
  assumes "i < length xs"
  shows "np_index xs (int i - 1) = Inr (xs ! ((i + length xs - 1) mod length xs))"
proof (cases i)
  case 0
  from assms obtain n where n: "length xs = Suc n" by (cases xs) auto
  show ?thesis using 0 n
    by (simp add: np_index_def Let_def)
next
  case (Suc j)
  with assms show ?thesis
    by (simp add: np_index_def Let_def)
qed

lemma next_index_mod: "(int ind + 1) mod 40 = int ((ind + 1) mod 40)"
  by (simp add: zmod_int add.commute)

lemma normals_loop_valid:
  assumes "\<And>i. i \<in> set inds \<Longrightarrow> i < length pts \<and> (i + 1) mod 40 < length pts"
  shows "normals_loop normal pts inds acc =
           Inr (acc @ map (\<lambda>i. average2
                                 (normal (pts ! ((i + length pts - 1) mod length pts)) (pts ! i))
                                 (normal (pts ! i) (pts ! ((i + 1) mod 40)))) inds)"
  using assms
proof (induction inds arbitrary: acc)
  case Nil
  show ?case by simp
next
  case (Cons i inds)
  have i: "i < length pts" "(i + 1) mod 40 < length pts"
    using Cons.prems [of i] by simp_all
  have rest: "\<And>j. j \<in> set inds \<Longrightarrow> j < length pts \<and> (j + 1) mod 40 < length pts"
    using Cons.prems by simp
  show ?case
    using Cons.IH [OF rest] i
    by (simp add: np_index_before np_index_in_range next_index_mod del: of_nat_add of_nat_Suc)
qed

lemma normals_loop_fails:
  assumes "\<And>i. i \<in> set inds \<Longrightarrow> i < length pts \<and> (i + 1) mod 40 < length pts"
    and "k < length pts" and "length pts \<le> (k + 1) mod 40"
  shows "normals_loop normal pts (inds @ k # rest) acc = Inl IndexError"
  using assms(1)
proof (induction inds arbitrary: acc)
  case Nil
  show ?case using assms(2,3)
    by (simp add: np_index_before np_index_in_range np_index_too_large next_index_mod
        del: of_nat_add of_nat_Suc)
next
  case (Cons i inds)
  have i: "i < length pts" "(i + 1) mod 40 < length pts"
    using Cons.prems [of i] by simp_all
  have rest: "\<And>j. j \<in> set inds \<Longrightarrow> j < length pts \<and> (j + 1) mod 40 < length pts"
    using Cons.prems by simp
  show ?case
    using Cons.IH [OF rest] i
    by (simp add: np_index_before np_index_in_range next_index_mod del: of_nat_add of_nat_Suc)
qed

lemma calculate_normals_40:
  assumes "length pts = 40"
  shows "calculate_normals normal pts = Inr (spec_normals normal pts)"
proof -
  have "normals_loop normal pts [0..<length pts] [] =
          Inr ([] @ map (\<lambda>i. average2
                                 (normal (pts ! ((i + length pts - 1) mod length pts)) (pts ! i))
                                 (normal (pts ! i) (pts ! ((i + 1) mod 40)))) [0..<length pts])"
    by (rule normals_loop_valid) (use assms in simp)
  then show ?thesis
    using assms by (simp add: calculate_normals_def spec_normals_def)
qed

lemma calculate_normals_short:
  assumes "0 < length pts" and "length pts < 40"
  shows "calculate_normals normal pts = Inl IndexError"
proof -
  obtain n where n: "length pts = Suc n" using assms(1) by (cases pts) auto
  have v: "\<And>i. i \<in> set [0..<n] \<Longrightarrow> i < length pts \<and> (i + 1) mod 40 < length pts"
    using n assms(2) by auto
  have "normals_loop normal pts ([0..<n] @ n # []) [] = Inl IndexError"
    using n assms(2) by (intro normals_loop_fails [OF v]) auto
  then show ?thesis by (simp add: calculate_normals_def n)
qed

lemma calculate_normals_long:
  assumes "40 \<le> length pts"
  shows "calculate_normals normal pts =
           Inr (map (\<lambda>i. average2
                           (normal (pts ! ((i + length pts - 1) mod length pts)) (pts ! i))
                           (normal (pts ! i) (pts ! ((i + 1) mod 40)))) [0..<length pts])"
proof -
  have "(i + 1) mod 40 < length pts" for i :: nat
  proof -
    have "(i + 1) mod 40 < 40" by simp
    with assms show ?thesis by linarith
  qed
  then have "normals_loop normal pts [0..<length pts] [] =
          Inr ([] @ map (\<lambda>i. average2
                                 (normal (pts ! ((i + length pts - 1) mod length pts)) (pts ! i))
                                 (normal (pts ! i) (pts ! ((i + 1) mod 40)))) [0..<length pts])"
    by (intro normals_loop_valid) simp
  then show ?thesis
    by (simp add: calculate_normals_def)
qed

text \<open>
  Claim C3, at a shape of three landmarks (a triangle). The specification's normals are
  defined for it (\<open>spec_normals\<close> wraps the index \<open>i + 1\<close> modulo the number of
  landmarks), but the code wraps modulo the constant 40: at the last landmark it reads
  \<^verbatim>\<open>points[3]\<close>, which does not exist, and raises \<^verbatim>\<open>IndexError\<close>, whatever
  \<^verbatim>\<open>utils.normal\<close> computes. The same happens for every shape of 1 to 39 landmarks
  (\<open>calculate_normals_short\<close>); for 40 landmarks the code computes the specification's
  normals (\<open>calculate_normals_40\<close>); for more than 40 it returns, with the second edge of
  the landmarks from index 39 on taken to \<^verbatim>\<open>points[(i+1) % 40]\<close>
  (\<open>calculate_normals_long\<close>).
\<close>

theorem calculate_normals_triangle:
  "calculate_normals normal [(0, 0), (1, 0), (0, 1)] = Inl IndexError \<and>
   length (spec_normals normal [(0, 0), (1, 0), (0, 1)]) = 3"
proof
  show "calculate_normals normal [(0, 0), (1, 0), (0, 1)] = Inl IndexError"
    by (rule calculate_normals_short) simp_all
  show "length (spec_normals normal [(0, 0), (1, 0), (0, 1)]) = 3"
    by (simp add: spec_normals_def)
qed

subsection \<open>Sampling a profile\<close>

lemma read_all_length: "read_all f xs = Inr ys \<Longrightarrow> length ys = length xs"
  by (induction xs arbitrary: ys) (auto split: sum.splits)

lemma read_all_float_div:
  "read_all (\<lambda>x. float_div x d) xs =
     (if d = 0 \<and> xs \<noteq> [] then Inl ZeroDivisionError else Inr (map (\<lambda>x. x / d) xs))"
  by (induction xs) (auto simp add: float_div_def)

text \<open>
  Claim C5. For a profile of at least one pixel (the list built by
  \<^verbatim>\<open>_generate_points\<close> always holds the landmark's own pixel) whose intensities were
  all read: when the sum of the absolute intensities is zero, \<^verbatim>\<open>_sample\<close> raises
  \<^verbatim>\<open>ZeroDivisionError\<close> (the division of Python floats refuses a zero divisor) and
  returns no profile; otherwise it returns the intensities divided by that sum.
\<close>

theorem sample_profile_zero_sum:
  assumes "read_all (image_at img) pts = Inr sample" and "pts \<noteq> []"
  shows "sample_profile img pts =
           (if (\<Sum>x\<leftarrow>sample. \<bar>x\<bar>) = 0 then Inl ZeroDivisionError
            else Inr (map (\<lambda>x. x / (\<Sum>x\<leftarrow>sample. \<bar>x\<bar>)) sample))"
proof -
  have "sample \<noteq> []" using read_all_length [OF assms(1)] assms(2) by auto
  then show ?thesis
    by (simp add: sample_profile_def assms(1) read_all_float_div Let_def)
qed

theorem sample_profile_zero_sum_witness:
  "sample_profile [[0, 0], [0, 0]] [(0, 0), (1, 1), (-1, 0)] = Inl ZeroDivisionError \<and>
   sample_profile [[1, 0], [0, -3]] [(0, 0), (1, 1), (-1, 0)] = Inr [1 / 4, - 3 / 4, 0]"
proof -
  have r0: "read_all (image_at [[0, 0], [0, 0]]) [(0, 0), (1, 1), (-1, 0)] = Inr [0, 0, 0]"
    by (simp add: image_at_def np_index_def)
  have r1: "read_all (image_at [[1, 0], [0, -3]]) [(0, 0), (1, 1), (-1, 0)] = Inr [1, -3, 0]"
    by (simp add: image_at_def np_index_def)
  have ne: "[(0, 0), (1, 1), (-1, 0)] \<noteq> ([] :: pixel list)" by simp
  show ?thesis
    using sample_profile_zero_sum [OF r0 ne] sample_profile_zero_sum [OF r1 ne] by simp
qed

subsection \<open>Generating the sample points\<close>

lemma append_new_cases:
  "append_new sp pts p = pts \<or> (append_new sp pts p = pts @ [p] \<and> p \<notin> set pts \<and> p \<notin> set sp)"
  by (simp add: append_new_def)

lemma collected_distinct:
  "distinct pts \<Longrightarrow> distinct (foldl (append_new sp) pts steps)"
proof (induction steps arbitrary: pts)
  case Nil
  then show ?case by simp
next
  case (Cons p steps)
  have "distinct (append_new sp pts p)"
    using Cons.prems append_new_cases [of sp pts p] by auto
  then show ?case using Cons.IH by simp
qed

lemma collected_set:
  "set (foldl (append_new sp) pts steps) = set pts \<union> (set steps - set sp)"
proof (induction steps arbitrary: pts)
  case Nil
  then show ?case by simp
next
  case (Cons p steps)
  have "set (append_new sp pts p) = set pts \<union> ({p} - set sp)"
    by (auto simp add: append_new_def)
  then show ?case using Cons.IH [of "append_new sp pts p"] by auto
qed

lemma collected_snoc:
  "foldl (append_new sp) pts (steps @ [p]) = append_new sp (foldl (append_new sp) pts steps) p"
  by simp

lemma collected_length_snoc:
  "length (foldl (append_new sp) pts (steps @ [p])) \<le> Suc (length (foldl (append_new sp) pts steps))"
  using append_new_cases [of sp "foldl (append_new sp) pts steps" p] by auto

text \<open>A loop that stops at the first turn with \<open>k\<close> points holds exactly \<open>k\<close> points.\<close>

lemma collected_length_exact:
  assumes before: "\<And>m. m < length steps \<Longrightarrow>
                     int (length (foldl (append_new sp) pts (take m steps))) < k"
    and stop: "\<not> int (length (foldl (append_new sp) pts steps)) < k"
    and start: "int (length pts) \<le> k"
  shows "int (length (foldl (append_new sp) pts steps)) = k"
proof (cases steps rule: rev_cases)
  case Nil
  with stop start show ?thesis by simp
next
  case (snoc ys p)
  from before [of "length ys"] snoc
  have "int (length (foldl (append_new sp) pts ys)) < k" by simp
  moreover have "\<not> int (length (foldl (append_new sp) pts (ys @ [p]))) < k"
    using stop snoc by simp
  ultimately have "int (length (foldl (append_new sp) pts (ys @ [p]))) = k"
    using collected_length_snoc [of sp pts ys p] by linarith
  then show ?thesis using snoc by simp
qed

text \<open>
  The loop returns the list of the first turn at which the exit test holds, when no step
  up to that turn raises.
\<close>

lemma collect_points_steps:
  assumes "map g [ind..<ind + length steps] = map Inr steps"
    and "\<And>m. m < length steps \<Longrightarrow>
           int (length (foldl (append_new sp) pts (take m steps))) < k"
    and "\<not> int (length (foldl (append_new sp) pts steps)) < k"
  shows "collect_points g k sp ind pts = Some (Inr (foldl (append_new sp) pts steps))"
  using assms
proof (induction steps arbitrary: ind pts)
  case Nil
  then show ?case by (subst collect_points.simps) simp
next
  case (Cons p steps)
  have upt: "[ind..<ind + length (p # steps)] = ind # [Suc ind..<Suc ind + length steps]"
    using upt_conv_Cons [of ind "ind + Suc (length steps)"] by simp
  from Cons.prems(1) [unfolded upt] have g: "g ind = Inr p"
    and rest: "map g [Suc ind..<Suc ind + length steps] = map Inr steps"
    by simp_all
  from Cons.prems(2) [of 0] have lt: "int (length pts) < k" by simp
  have "collect_points g k sp (Suc ind) (append_new sp pts p)
          = Some (Inr (foldl (append_new sp) (append_new sp pts p) steps))"
  proof (rule Cons.IH [OF rest])
    fix m assume "m < length steps"
    then show "int (length (foldl (append_new sp) (append_new sp pts p) (take m steps))) < k"
      using Cons.prems(2) [of "Suc m"] by simp
  next
    show "\<not> int (length (foldl (append_new sp) (append_new sp pts p) steps)) < k"
      using Cons.prems(3) by simp
  qed
  then show ?case
    using lt g by (subst collect_points.simps) simp
qed

text \<open>Conversely, a list that the loop returns is the list of such a turn.\<close>

lemma collect_points_returns:
  assumes "collect_points g k sp ind pts = Some (Inr res)"
  shows "\<exists>steps. map g [ind..<ind + length steps] = map Inr steps \<and>
                  res = foldl (append_new sp) pts steps \<and>
                  (\<forall>m<length steps.
                     int (length (foldl (append_new sp) pts (take m steps))) < k) \<and>
                  \<not> int (length res) < k"
proof -
  define P where "P = (\<lambda>(g :: nat \<Rightarrow> py_error + pixel) k sp ind pts (y :: py_error + pixel list).
    \<forall>res. y = Inr res \<longrightarrow>
      (\<exists>steps. map g [ind..<ind + length steps] = map Inr steps \<and>
               res = foldl (append_new sp) pts steps \<and>
               (\<forall>m<length steps.
                  int (length (foldl (append_new sp) pts (take m steps))) < k) \<and>
               \<not> int (length res) < k))"
  have "P g k sp ind pts (Inr res)"
  proof (rule collect_points.raw_induct [OF _ assms])
    fix f g k sp ind pts and y :: "py_error + pixel list"
    assume IH: "\<And>g k sp ind pts y. f g k sp ind pts = Some y \<Longrightarrow> P g k sp ind pts y"
      and eq: "(if int (length pts) < k
                then case g ind of Inl e \<Rightarrow> Some (Inl e)
                     | Inr p \<Rightarrow> f g k sp (ind + 1) (append_new sp pts p)
                else Some (Inr pts)) = Some y"
    show "P g k sp ind pts y"
    proof (cases "int (length pts) < k")
      case False
      with eq have "y = Inr pts" by simp
      then show ?thesis
        unfolding P_def using False by (intro allI impI exI [of _ "[]"]) simp
    next
      case True
      show ?thesis
      proof (cases "g ind")
        case (Inl e)
        with eq True have "y = Inl e" by simp
        then show ?thesis unfolding P_def by simp
      next
        case (Inr p)
        with eq True have "f g k sp (Suc ind) (append_new sp pts p) = Some y" by simp
        from IH [OF this] have p: "P g k sp (Suc ind) (append_new sp pts p) y" .
        show ?thesis
          unfolding P_def
        proof (intro allI impI)
          fix res assume "y = Inr res"
          with p obtain steps where
            s: "map g [Suc ind..<Suc ind + length steps] = map Inr steps"
              "res = foldl (append_new sp) (append_new sp pts p) steps"
              "\<forall>m<length steps.
                 int (length (foldl (append_new sp) (append_new sp pts p) (take m steps))) < k"
              "\<not> int (length res) < k"
            unfolding P_def by blast
          have upt: "[ind..<ind + length (p # steps)] = ind # [Suc ind..<Suc ind + length steps]"
            using upt_conv_Cons [of ind "ind + Suc (length steps)"] by simp
          have 1: "map g [ind..<ind + length (p # steps)] = map Inr (p # steps)"
            unfolding upt using Inr s(1) by simp
          have 2: "res = foldl (append_new sp) pts (p # steps)"
            using s(2) by simp
          have 3: "\<forall>m<length (p # steps).
                     int (length (foldl (append_new sp) pts (take m (p # steps)))) < k"
          proof (intro allI impI)
            fix m assume m: "m < length (p # steps)"
            show "int (length (foldl (append_new sp) pts (take m (p # steps)))) < k"
            proof (cases m)
              case 0
              with True show ?thesis by simp
            next
              case (Suc n)
              with m s(3) show ?thesis by simp
            qed
          qed
          from 1 2 3 s(4)
          show "\<exists>steps. map g [ind..<ind + length steps] = map Inr steps \<and>
                  res = foldl (append_new sp) pts steps \<and>
                  (\<forall>m<length steps.
                     int (length (foldl (append_new sp) pts (take m steps))) < k) \<and>
                  \<not> int (length res) < k"
            by blast
        qed
      qed
    qed
  qed
  then show ?thesis unfolding P_def by blast
qed

text \<open>
  The loop ends as soon as the steps made without an exception have produced \<open>k\<close>
  points.
\<close>

lemma collect_points_found:
  assumes steps: "map g [ind..<ind + length steps] = map Inr steps"
    and enough: "\<not> int (length (foldl (append_new sp) pts steps)) < k"
  shows "\<exists>res. collect_points g k sp ind pts = Some (Inr res)"
proof -
  let ?stop = "\<lambda>n. \<not> int (length (foldl (append_new sp) pts (take n steps))) < k"
  have ex: "?stop (length steps)" using enough by simp
  define n where "n = (LEAST n. ?stop n)"
  have stop: "?stop n" unfolding n_def using ex by (rule LeastI)
  have le: "n \<le> length steps" unfolding n_def using ex by (rule Least_le)
  have before: "\<And>m. m < n \<Longrightarrow> int (length (foldl (append_new sp) pts (take m steps))) < k"
    unfolding n_def using not_less_Least by blast
  have len: "length (take n steps) = n" using le by simp
  have "map g (take n [ind..<ind + length steps]) = map Inr (take n steps)"
    using steps by (simp add: take_map [symmetric])
  moreover have "take n [ind..<ind + length steps] = [ind..<ind + n]"
    using le by simp
  ultimately have 1: "map g [ind..<ind + length (take n steps)] = map Inr (take n steps)"
    using len by simp
  have "collect_points g k sp ind pts = Some (Inr (foldl (append_new sp) pts (take n steps)))"
  proof (rule collect_points_steps [OF 1])
    fix m assume "m < length (take n steps)"
    then have m: "m < n" using len by simp
    then have "take m (take n steps) = take m steps" by (simp add: min_def)
    with before [OF m]
    show "int (length (foldl (append_new sp) pts (take m (take n steps)))) < k" by simp
  next
    show "\<not> int (length (foldl (append_new sp) pts (take n steps))) < k" using stop .
  qed
  then show ?thesis by blast
qed

lemma collected_card:
  "length (foldl (append_new sp) [] steps) = card (set steps - set sp)"
proof -
  have "distinct (foldl (append_new sp) [] steps)" by (simp add: collected_distinct)
  then have "length (foldl (append_new sp) [] steps) = card (set (foldl (append_new sp) [] steps))"
    by (simp add: distinct_card)
  then show ?thesis by (simp add: collected_set)
qed
text \<open>
  Claim C4, with the centre as the code computes it and without a promise that the loops
  end. Let \<open>k \<ge> 0\<close>. When \<^verbatim>\<open>int()\<close> accepts the landmark's coordinates and, on
  each side, the steps \<open>ind = 1, 2, \<dots>\<close> reach \<open>k\<close> different pixels other than the
  landmark's before any step raises, \<^verbatim>\<open>_generate_points\<close> returns a list. Every list
  it returns has \<open>2k + 1\<close> pixels: the \<open>k\<close> points of \<^verbatim>\<open>neg_points\<close> reversed, the
  landmark's pixel, the \<open>k\<close> points of \<^verbatim>\<open>pos_points\<close>. The landmark's pixel is the
  landmark with the fraction of each coordinate dropped (\<^verbatim>\<open>int()\<close>, toward zero). The
  points of either side are distinct, none is the landmark's pixel, and they are what the
  loop collects from the pixels of the steps \<open>1, 2, \<dots>\<close>, turn by turn, a pixel
  already seen being skipped.
\<close>

theorem generate_points_shape:
  assumes "0 \<le> k"
  shows
    "(to_int (fst start_point) = Inr y \<and> to_int (snd start_point) = Inr x \<and>
      (\<exists>steps. map (pos_new_point ops start_point direction) [1..<Suc (length steps)]
                 = map Inr steps \<and>
               k \<le> int (card (set steps - {(y, x)}))) \<and>
      (\<exists>steps. map (neg_new_point ops start_point direction) [1..<Suc (length steps)]
                 = map Inr steps \<and>
               k \<le> int (card (set steps - {(y, x)})))
      \<longrightarrow> (\<exists>result. generate_points ops k start_point direction = Some (Inr result))) \<and>
     (generate_points ops k start_point direction = Some (Inr result) \<longrightarrow>
        (\<exists>neg_points pos_points neg_steps pos_steps centre.
           to_int (fst start_point) = Inr (fst centre) \<and>
           to_int (snd start_point) = Inr (snd centre) \<and>
           result = rev neg_points @ [centre] @ pos_points \<and>
           int (length result) = 2 * k + 1 \<and>
           int (length neg_points) = k \<and> int (length pos_points) = k \<and>
           distinct neg_points \<and> distinct pos_points \<and>
           centre \<notin> set neg_points \<union> set pos_points \<and>
           map (neg_new_point ops start_point direction) [1..<Suc (length neg_steps)]
             = map Inr neg_steps \<and>
           neg_points = foldl (append_new [centre]) [] neg_steps \<and>
           map (pos_new_point ops start_point direction) [1..<Suc (length pos_steps)]
             = map Inr pos_steps \<and>
           pos_points = foldl (append_new [centre]) [] pos_steps))"
proof (intro conjI impI)
  assume h: "to_int (fst start_point) = Inr y \<and> to_int (snd start_point) = Inr x \<and>
      (\<exists>steps. map (pos_new_point ops start_point direction) [1..<Suc (length steps)]
                 = map Inr steps \<and>
               k \<le> int (card (set steps - {(y, x)}))) \<and>
      (\<exists>steps. map (neg_new_point ops start_point direction) [1..<Suc (length steps)]
                 = map Inr steps \<and>
               k \<le> int (card (set steps - {(y, x)})))"
  then obtain ps ns where
    ps: "map (pos_new_point ops start_point direction) [1..<1 + length ps] = map Inr ps"
      "k \<le> int (card (set ps - {(y, x)}))"
    and ns: "map (neg_new_point ops start_point direction) [1..<1 + length ns] = map Inr ns"
      "k \<le> int (card (set ns - {(y, x)}))"
    by auto
  have "\<not> int (length (foldl (append_new [(y, x)]) [] ps)) < k"
    using ps(2) by (simp add: collected_card)
  from collect_points_found [OF ps(1) this] obtain pos_points where
    p: "collect_points (pos_new_point ops start_point direction) k [(y, x)] 1 []
          = Some (Inr pos_points)" by blast
  have "\<not> int (length (foldl (append_new [(y, x)]) [] ns)) < k"
    using ns(2) by (simp add: collected_card)
  from collect_points_found [OF ns(1) this] obtain neg_points where
    n: "collect_points (neg_new_point ops start_point direction) k [(y, x)] 1 []
          = Some (Inr neg_points)" by blast
  have "generate_points ops k start_point direction
          = Some (Inr (rev neg_points @ [(y, x)] @ pos_points))"
    using h p n by (simp add: generate_points_def Let_def)
  then show "\<exists>result. generate_points ops k start_point direction = Some (Inr result)"
    by blast
next
  assume g: "generate_points ops k start_point direction = Some (Inr result)"
  from g obtain y where y: "to_int (fst start_point) = Inr y"
    by (cases "to_int (fst start_point)") (simp_all add: generate_points_def)
  from g y obtain x where x: "to_int (snd start_point) = Inr x"
    by (cases "to_int (snd start_point)") (simp_all add: generate_points_def)
  let ?fp = "pos_new_point ops start_point direction"
  let ?fn = "neg_new_point ops start_point direction"
  from g y x obtain pos_points where p: "collect_points ?fp k [(y, x)] 1 [] = Some (Inr pos_points)"
    by (auto simp add: generate_points_def Let_def split: option.splits sum.splits)
  from g y x p obtain neg_points where
    n: "collect_points ?fn k [(y, x)] 1 [] = Some (Inr neg_points)"
    by (auto simp add: generate_points_def Let_def split: option.splits sum.splits)
  have r: "result = rev neg_points @ [(y, x)] @ pos_points"
    using g y x p n by (simp add: generate_points_def Let_def)
  have k0: "int (length ([] :: pixel list)) \<le> k" using assms by simp
  from collect_points_returns [OF p] obtain pos_steps where
    ps: "map ?fp [1..<1 + length pos_steps] = map Inr pos_steps"
      "pos_points = foldl (append_new [(y, x)]) [] pos_steps"
      "\<forall>m<length pos_steps.
         int (length (foldl (append_new [(y, x)]) [] (take m pos_steps))) < k"
      "\<not> int (length pos_points) < k"
    by blast
  from collect_points_returns [OF n] obtain neg_steps where
    ns: "map ?fn [1..<1 + length neg_steps] = map Inr neg_steps"
      "neg_points = foldl (append_new [(y, x)]) [] neg_steps"
      "\<forall>m<length neg_steps.
         int (length (foldl (append_new [(y, x)]) [] (take m neg_steps))) < k"
      "\<not> int (length neg_points) < k"
    by blast
  have lp: "int (length pos_points) = k"
    unfolding ps(2) using ps(3) ps(4) [unfolded ps(2)] k0
    by (intro collected_length_exact) auto
  have ln: "int (length neg_points) = k"
    unfolding ns(2) using ns(3) ns(4) [unfolded ns(2)] k0
    by (intro collected_length_exact) auto
  have d: "distinct neg_points" "distinct pos_points"
    unfolding ns(2) ps(2) by (simp_all add: collected_distinct)
  have c: "(y, x) \<notin> set neg_points \<union> set pos_points"
    unfolding ns(2) ps(2) by (simp add: collected_set)
  have l: "int (length result) = 2 * k + 1"
    using r lp ln by simp
  show "\<exists>neg_points pos_points neg_steps pos_steps centre.
           to_int (fst start_point) = Inr (fst centre) \<and>
           to_int (snd start_point) = Inr (snd centre) \<and>
           result = rev neg_points @ [centre] @ pos_points \<and>
           int (length result) = 2 * k + 1 \<and>
           int (length neg_points) = k \<and> int (length pos_points) = k \<and>
           distinct neg_points \<and> distinct pos_points \<and>
           centre \<notin> set neg_points \<union> set pos_points \<and>
           map (neg_new_point ops start_point direction) [1..<Suc (length neg_steps)]
             = map Inr neg_steps \<and>
           neg_points = foldl (append_new [centre]) [] neg_steps \<and>
           map (pos_new_point ops start_point direction) [1..<Suc (length pos_steps)]
             = map Inr pos_steps \<and>
           pos_points = foldl (append_new [centre]) [] pos_steps"
    apply (rule exI [of _ neg_points], rule exI [of _ pos_points])
    apply (rule exI [of _ neg_steps], rule exI [of _ pos_steps], rule exI [of _ "(y, x)"])
    using y x r l ln lp d c ns(1,2) ps(1,2) by simp
qed

text \<open>
  A run: landmark \<open>(2.75, 0)\<close>, direction \<open>(0, 64)\<close>, \<open>k = 1\<close>. Every intermediate
  result is a double (\<open>1 * 0.02\<close>, its product with \<open>64\<close>, a power of two, or with
  \<open>0\<close>, and the sums and differences with \<open>2.75\<close> and \<open>0\<close>), so the machine
  computes what the exact arithmetic computes.
\<close>

lemma pos_new_point_example:
  "pos_new_point exact_ops (Finite (11 / 4), Finite 0) (Finite 0, Finite 64) (Suc 0)
     = Inr (2, - 1)"
proof -
  have "\<lceil>- (5764607523034235 * 64 / 2 ^ 58 :: real)\<rceil> = - 1"
    by (rule ceiling_unique) simp_all
  then show ?thesis
    by (simp add: pos_new_point_def new_point_def exact_ops_def exact_def step_width_def
        py_int_def)
qed

lemma neg_new_point_example:
  "neg_new_point exact_ops (Finite (11 / 4), Finite 0) (Finite 0, Finite 64) (Suc 0)
     = Inr (2, 1)"
proof -
  have "\<lfloor>(5764607523034235 * 64 / 2 ^ 58 :: real)\<rfloor> = 1"
    by (rule floor_unique) simp_all
  then show ?thesis
    by (simp add: neg_new_point_def new_point_def exact_ops_def exact_def step_width_def
        py_int_def)
qed

lemma collect_points_one:
  assumes "g (Suc 0) = Inr p" and "p \<notin> set sp"
  shows "collect_points g 1 sp (Suc 0) [] = Some (Inr [p])"
proof -
  have "collect_points g 1 sp (Suc 0) [] = Some (Inr (foldl (append_new sp) [] [p]))"
  proof (rule collect_points_steps)
    show "map g [Suc 0..<Suc 0 + length [p]] = map Inr [p]" using assms(1) by simp
  next
    fix m assume "m < length [p]"
    then show "int (length (foldl (append_new sp) [] (take m [p]))) < 1" by simp
  next
    show "\<not> int (length (foldl (append_new sp) [] [p])) < 1"
      using assms(2) by (simp add: append_new_def)
  qed
  then show ?thesis using assms(2) by (simp add: append_new_def)
qed

lemma generate_points_example:
  "generate_points exact_ops 1 (Finite (11 / 4), Finite 0) (Finite 0, Finite 64)
     = Some (Inr [(2, 1), (2, 0), (2, - 1)])"
proof -
  let ?s = "(Finite (11 / 4), Finite 0)" and ?d = "(Finite 0, Finite 64)"
  have p: "collect_points (pos_new_point exact_ops ?s ?d) 1 [(2, 0)] (Suc 0) []
             = Some (Inr [(2, - 1)])"
    using collect_points_one [of "pos_new_point exact_ops ?s ?d" "(2, - 1)" "[(2, 0)]"]
      pos_new_point_example by simp
  have n: "collect_points (neg_new_point exact_ops ?s ?d) 1 [(2, 0)] (Suc 0) []
             = Some (Inr [(2, 1)])"
    using collect_points_one [of "neg_new_point exact_ops ?s ?d" "(2, 1)" "[(2, 0)]"]
      neg_new_point_example by simp
  show ?thesis
    by (simp add: generate_points_def py_int_def p n)
qed

theorem generate_points_shape_witness:
  "(\<exists>result. generate_points exact_ops 1 (Finite (11 / 4), Finite 0) (Finite 0, Finite 64)
               = Some (Inr result)) \<and>
   (\<exists>neg_points pos_points centre.
      to_int (Finite (11 / 4)) = Inr (fst centre) \<and> to_int (Finite 0) = Inr (snd centre) \<and>
      [(2, 1), (2, 0), (2, - 1)] = rev neg_points @ [centre] @ pos_points \<and>
      int (length neg_points) = 1 \<and> int (length pos_points) = 1 \<and>
      distinct neg_points \<and> distinct pos_points \<and>
      centre \<notin> set neg_points \<union> set pos_points)"
proof -
  let ?s = "(Finite (11 / 4), Finite 0)" and ?d = "(Finite 0, Finite 64)"
  have k: "(0 :: int) \<le> 1" by simp
  have c: "to_int (fst ?s) = Inr 2 \<and> to_int (snd ?s) = Inr 0"
    by (simp add: py_int_def)
  have ps: "\<exists>steps. map (pos_new_point exact_ops ?s ?d) [1..<Suc (length steps)]
                      = map Inr steps \<and> 1 \<le> int (card (set steps - {(2, 0)}))"
    by (rule exI [of _ "[(2, - 1)]"]) (simp add: pos_new_point_example)
  have ns: "\<exists>steps. map (neg_new_point exact_ops ?s ?d) [1..<Suc (length steps)]
                      = map Inr steps \<and> 1 \<le> int (card (set steps - {(2, 0)}))"
    by (rule exI [of _ "[(2, 1)]"]) (simp add: neg_new_point_example)
  note t = generate_points_shape [OF k, of ?s 2 0 exact_ops ?d "[(2, 1), (2, 0), (2, - 1)]"]
  from t c ps ns
  have 1: "\<exists>result. generate_points exact_ops 1 ?s ?d = Some (Inr result)"
    by blast
  from t generate_points_example
  have 2: "\<exists>neg_points pos_points centre.
      to_int (fst ?s) = Inr (fst centre) \<and> to_int (snd ?s) = Inr (snd centre) \<and>
      [(2, 1), (2, 0), (2, - 1)] = rev neg_points @ [centre] @ pos_points \<and>
      int (length neg_points) = 1 \<and> int (length pos_points) = 1 \<and>
      distinct neg_points \<and> distinct pos_points \<and>
      centre \<notin> set neg_points \<union> set pos_points"
    by blast
  from 1 2 show ?thesis by simp
qed

text \<open>
  The claim as worded, with the centre "equal to the rounded landmark coordinate", fails
  at the landmark \<open>(2.75, 0)\<close>: its pixel in the list is \<open>(2, 0)\<close>, while the landmark
  rounded to the nearest pixel is \<open>(3, 0)\<close>. With \<open>k = 0\<close> the list is that pixel alone,
  whatever the direction and the arithmetic; with \<open>k = 1\<close> and the direction \<open>(0, 64)\<close>
  the code returns \<open>[(2, 1), (2, 0), (2, -1)]\<close>.
\<close>

theorem generate_points_centre_not_rounded:
  "(\<forall>ops direction.
      generate_points ops 0 (Finite (11 / 4), Finite 0) direction = Some (Inr [(2, 0)])) \<and>
   generate_points exact_ops 1 (Finite (11 / 4), Finite 0) (Finite 0, Finite 64)
     = Some (Inr [(2, 1), (2, 0), (2, - 1)]) \<and>
   (round (11 / 4 :: real), round (0 :: real)) = ((3, 0) :: pixel)"
proof -
  have r: "(round (11 / 4 :: real), round (0 :: real)) = ((3, 0) :: pixel)"
    by (simp add: round_def)
  have z: "collect_points g 0 sp ind [] = Some (Inr [])" for g sp ind
    by (subst collect_points.simps) simp
  have "generate_points ops 0 (Finite (11 / 4), Finite 0) direction = Some (Inr [(2, 0)])"
    for ops direction
    by (simp add: generate_points_def py_int_def z)
  then show ?thesis
    using generate_points_example r by blast
qed

section \<open>ReferentModel\<close>

lemma for_each_length: "for_each f xs h = Inr (ys, h') \<Longrightarrow> length ys = length xs"
proof (induction xs arbitrary: ys h)
  case Nil
  then show ?case by simp
next
  case (Cons x xs)
  then show ?case by (auto split: sum.splits prod.splits)
qed


lemma normalise_collection_converted:
  assumes "normalise_collection c m h = Inr (collection, h1)"
  shows "\<exists>h0. convert_matrix_to_collection c m h = Inr (collection, h0)"
  using assms
  by (auto simp add: normalise_collection_def and_then_def returns_def
      split: sum.splits prod.splits)




subsection \<open>What \<^verbatim>\<open>align\<close> raises, and when it ends\<close>

lemma normalise_collection_empty: "normalise_collection c [] h = Inr ([], h)"
  by (simp add: normalise_collection_def convert_matrix_to_collection_def and_then_def
      returns_def)

lemma normalise_collection_length:
  assumes "normalise_collection c m h = Inr (collection, h1)"
  shows "length collection = length m"
proof -
  from normalise_collection_converted [OF assms] obtain h0 where
    "convert_matrix_to_collection c m h = Inr (collection, h0)" by blast
  then show ?thesis
    unfolding convert_matrix_to_collection_def by (rule for_each_length)
qed

lemma align_raises_itself:
  assumes a: "align c m h = Some (Inl (Inl e))"
  shows "e = IndexError \<and> m = []"
proof -
  from a obtain collection h1 where n: "normalise_collection c m h = Inr (collection, h1)"
    by (cases "normalise_collection c m h") (auto simp add: align_def)
  have "collection = [] \<and> e = IndexError"
    using a n
    by (cases collection)
       (auto simp add: align_def split: sum.splits prod.splits option.splits)
  with normalise_collection_length [OF n] show ?thesis by simp
qed

text \<open>
  Claim C9, as the code has it. \<^verbatim>\<open>align\<close> has no check of its input. The one
  exception it raises itself is the \<^verbatim>\<open>IndexError\<close> of \<^verbatim>\<open>self.points[0]\<close>, and it
  raises it exactly on a matrix without rows. On every other matrix, one of a single row
  included, \<^verbatim>\<open>align\<close> fails only where a call of \<^verbatim>\<open>DataCollector\<close>,
  \<^verbatim>\<open>utils\<close> or \<^verbatim>\<open>numpy\<close> raises, with the exception of that call.
\<close>

theorem align_own_failure:
  "align c m h = Some (Inl (Inl e)) \<longleftrightarrow> e = IndexError \<and> m = []"
proof
  assume "align c m h = Some (Inl (Inl e))"
  then show "e = IndexError \<and> m = []" by (rule align_raises_itself)
next
  assume "e = IndexError \<and> m = []"
  then show "align c m h = Some (Inl (Inl e))"
    by (simp add: align_def normalise_collection_empty)
qed





subsection \<open>Runs of \<^verbatim>\<open>align\<close>\<close>







lemma toy_align_one:
  "align toy_collaborators [[1, 2]] []
     = Some (Inr (\<lparr>model_points = [0], model_mean_shape = 1\<rparr>, [[1, 2], [1, 2], [1, 2]]))"
proof -
  have n: "normalise_collection toy_collaborators [[1, 2]] [] = Inr ([0], [[1, 2]])"
    by (simp add: normalise_collection_def convert_matrix_to_collection_def and_then_def
        returns_def toy_collaborators_def)
  have f: "first_mean_shapes toy_collaborators 0 [[1, 2]]
             = Inr ((1, 2), [[1, 2], [1, 2], [0, 0]])"
    by (simp add: first_mean_shapes_def and_then_def returns_def toy_collaborators_def)
  have b: "loop_body toy_collaborators 2 1 [0] [[1, 2], [1, 2], [0, 0]]
             = Inr ((), [[1, 2], [1, 2], [1, 2]])"
    by (simp add: loop_body_def mean_model_def convert_collection_to_matrix_def
        realign_item_def and_then_def returns_def toy_collaborators_def)
  have t0: "is_converged toy_collaborators 2 1 [[1, 2], [1, 2], [0, 0]]
              = Inr (False, [[1, 2], [1, 2], [0, 0]])"
    by (simp add: toy_collaborators_def)
  have t1: "is_converged toy_collaborators 2 1 [[1, 2], [1, 2], [1, 2]]
              = Inr (True, [[1, 2], [1, 2], [1, 2]])"
    by (simp add: toy_collaborators_def)
  have "procrustes_loop toy_collaborators 2 1 [0] [[1, 2], [1, 2], [1, 2]]
          = Some (Inr ((), [[1, 2], [1, 2], [1, 2]]))"
    by (subst procrustes_loop.simps) (simp only: t1 sum.case prod.case if_True)
  then have l: "procrustes_loop toy_collaborators 2 1 [0] [[1, 2], [1, 2], [0, 0]]
          = Some (Inr ((), [[1, 2], [1, 2], [1, 2]]))"
    by (subst procrustes_loop.simps) (simp only: t0 b sum.case prod.case if_False)
  have s: "mean_scale_factor toy_collaborators 1 [0] [[1, 2], [1, 2], [1, 2]]
             = Inr ((), [[1, 2], [1, 2], [1, 2]])"
    by (simp add: mean_scale_factor_def and_then_def toy_collaborators_def)
  show ?thesis
    by (simp only: align_def n f l s sum.case prod.case list.case option.case)
qed

text \<open>
  Claim C9 as worded fails on a matrix of a single shape. Whatever the collaborators,
  \<^verbatim>\<open>align\<close> raises nothing itself on one row; and with collaborators that do not
  raise, it goes through the whole alignment of the single row \<open>[1, 2]\<close> and returns.
\<close>

theorem align_single_shape_accepted:
  "(\<forall>c h row e. align c [row] h \<noteq> Some (Inl (Inl e))) \<and>
   align toy_collaborators [[1, 2]] []
     = Some (Inr (\<lparr>model_points = [0], model_mean_shape = 1\<rparr>, [[1, 2], [1, 2], [1, 2]]))"
proof (intro conjI allI)
  fix c :: "('a, 'b, 'c, 'd, 'e) collaborators" and h row e
  show "align c [row] h \<noteq> Some (Inl (Inl e))"
    using align_raises_itself [of c "[row]" h e] by auto
next
  show "align toy_collaborators [[1, 2]] []
     = Some (Inr (\<lparr>model_points = [0], model_mean_shape = 1\<rparr>, [[1, 2], [1, 2], [1, 2]]))"
    by (rule toy_align_one)
qed




end
